theory Spec2Isabelle
  imports Main "HOL-Library.Char_ord" "HOL-Library.List_Lexorder" "HOL-Library.Product_Lexorder"
begin

section \<open>Rate limiter\<close>

text \<open>
  The class \<open>RateLimiter\<close>: a map from user identifiers to the list of
  request timestamps (milliseconds), the quota and the length of the window. The
  constructor sets the quota to 10 and the window to 60000 ms.
\<close>

record rate_limiter =
  requests :: "string \<rightharpoonup> int list"
  maxRequests :: nat
  timeWindow :: int

definition RateLimiter_new :: rate_limiter where
  "RateLimiter_new = \<lparr>requests = Map.empty, maxRequests = 10, timeWindow = 60000\<rparr>"

text \<open>\<open>this.requests.get(userId) || []\<close>\<close>

definition userRequests :: "rate_limiter \<Rightarrow> string \<Rightarrow> int list" where
  "userRequests rl userId = (case requests rl userId of None \<Rightarrow> [] | Some ts \<Rightarrow> ts)"

text \<open>\<open>this.requests.set(userId, list)\<close>\<close>

definition requests_set :: "rate_limiter \<Rightarrow> string \<Rightarrow> int list \<Rightarrow> rate_limiter" where
  "requests_set rl userId ts = rl\<lparr>requests := (requests rl)(userId \<mapsto> ts)\<rparr>"

text \<open>\<open>userRequests.filter(time => now - time < this.timeWindow)\<close>\<close>

definition recentRequests :: "rate_limiter \<Rightarrow> int \<Rightarrow> string \<Rightarrow> int list" where
  "recentRequests rl now userId = filter (\<lambda>time. now - time < timeWindow rl) (userRequests rl userId)"

text \<open>
  \<open>canMakeRequest(userId)\<close>, with the value of \<open>Date.now()\<close> as an argument. The
  result is the returned boolean and the limiter after the call. On refusal the method
  returns before \<open>this.requests.set\<close>, so the limiter is the one it was given.
\<close>

definition canMakeRequest :: "int \<Rightarrow> string \<Rightarrow> rate_limiter \<Rightarrow> bool \<times> rate_limiter" where
  "canMakeRequest now userId rl =
     (let recent = recentRequests rl now userId in
      if length recent \<ge> maxRequests rl then (False, rl)
      else (True, requests_set rl userId (recent @ [now])))"

text \<open>\<open>getRemainingRequests(userId)\<close>: \<open>Math.max(0, maxRequests - recent.length)\<close>.\<close>

definition getRemainingRequests :: "int \<Rightarrow> string \<Rightarrow> rate_limiter \<Rightarrow> int" where
  "getRemainingRequests now userId rl =
     max 0 (int (maxRequests rl) - int (length (recentRequests rl now userId)))"

text \<open>A sequence of calls by one user, one call at each of the given clock readings.\<close>

fun calls :: "string \<Rightarrow> int list \<Rightarrow> rate_limiter \<Rightarrow> bool list \<times> rate_limiter" where
  "calls userId [] rl = ([], rl)"
| "calls userId (now # nows) rl =
     (let (b, rl') = canMakeRequest now userId rl;
          (bs, rl'') = calls userId nows rl'
      in (b # bs, rl''))"

section \<open>Strings\<close>

text \<open>
  Strings are lists of 8-bit characters (Latin-1). \<open>String.prototype.toLowerCase\<close>
  on that range maps A-Z and the accented capitals (all of 0xC0-0xDE but the
  multiplication sign) to the character 32 places on.
\<close>

definition toLowerCase_char :: "char \<Rightarrow> char" where
  "toLowerCase_char c =
     (let n = (of_char c :: nat) in
      if (65 \<le> n \<and> n \<le> 90) \<or> (192 \<le> n \<and> n \<le> 222 \<and> n \<noteq> 215)
      then char_of (n + 32) else c)"

definition toLowerCase :: "string \<Rightarrow> string" where
  "toLowerCase s = map toLowerCase_char s"

text \<open>\<open>s.startsWith(p)\<close> and \<open>s.includes(p)\<close>.\<close>

fun startsWith :: "string \<Rightarrow> string \<Rightarrow> bool" where
  "startsWith s [] = True"
| "startsWith [] (p # ps) = False"
| "startsWith (c # cs) (p # ps) = (c = p \<and> startsWith cs ps)"

fun includes_str :: "string \<Rightarrow> string \<Rightarrow> bool" where
  "includes_str [] p = (p = [])"
| "includes_str (c # cs) p = (startsWith (c # cs) p \<or> includes_str cs p)"

text \<open>
  A regular expression with the flag \<open>i\<close> compares an ASCII letter of the pattern
  with the subject up to ASCII case: a character outside ASCII never matches an ASCII
  letter. The patterns below are written in lower case.
\<close>

definition fold_ascii :: "char \<Rightarrow> char" where
  "fold_ascii c =
     (let n = (of_char c :: nat) in if 65 \<le> n \<and> n \<le> 90 then char_of (n + 32) else c)"

definition startsWith_ci :: "string \<Rightarrow> string \<Rightarrow> bool" where
  "startsWith_ci s p = startsWith (map fold_ascii s) p"

text \<open>The classes \<open>\w\<close> and \<open>\s\<close>, and the line terminators that \<open>.\<close> excludes.\<close>

definition word_char :: "char \<Rightarrow> bool" where
  "word_char c =
     (let n = (of_char c :: nat) in
      (48 \<le> n \<and> n \<le> 57) \<or> (65 \<le> n \<and> n \<le> 90) \<or> (97 \<le> n \<and> n \<le> 122) \<or> n = 95)"

definition space_char :: "char \<Rightarrow> bool" where
  "space_char c = (let n = (of_char c :: nat) in (9 \<le> n \<and> n \<le> 13) \<or> n = 32 \<or> n = 160)"

definition line_terminator :: "char \<Rightarrow> bool" where
  "line_terminator c = (let n = (of_char c :: nat) in n = 10 \<or> n = 13)"

text \<open>
  \<open>s.replace(re, '')\<close> for a global regular expression \<open>re\<close> that never matches the
  empty string: \<open>m\<close> gives the length of the match that starts at the head of its
  argument, if there is one. The scan goes from left to right; after a match it goes on
  behind the match. The counter is the number of characters of the current match still
  to be dropped.
\<close>

fun replace_from :: "(string \<Rightarrow> nat option) \<Rightarrow> nat \<Rightarrow> string \<Rightarrow> string" where
  "replace_from m k [] = []"
| "replace_from m (Suc k) (c # cs) = replace_from m k cs"
| "replace_from m 0 (c # cs) =
     (case m (c # cs) of
        None \<Rightarrow> c # replace_from m 0 cs
      | Some n \<Rightarrow> (case n of 0 \<Rightarrow> c # replace_from m 0 cs | Suc k \<Rightarrow> replace_from m k cs))"

definition remove_matches :: "(string \<Rightarrow> nat option) \<Rightarrow> string \<Rightarrow> string" where
  "remove_matches m s = replace_from m 0 s"

text \<open>
  \<open>/<script[^>]*>.*?<\/script>/gi\<close>: the opening tag up to the first \<open>>\<close>, then
  the shortest run without a line terminator that is followed by the closing tag.
\<close>

fun lazy_close :: "string \<Rightarrow> nat option" where
  "lazy_close [] = None"
| "lazy_close (c # cs) =
     (if startsWith_ci (c # cs) ''</script>'' then Some 9
      else if line_terminator c then None
      else map_option Suc (lazy_close cs))"

definition match_script :: "string \<Rightarrow> nat option" where
  "match_script s =
     (if startsWith_ci s ''<script'' then
        (let r = drop 7 s; attrs = takeWhile (\<lambda>c. c \<noteq> CHR ''>'') r in
         case dropWhile (\<lambda>c. c \<noteq> CHR ''>'') r of
           [] \<Rightarrow> None
         | _ # body \<Rightarrow> map_option (\<lambda>n. 7 + length attrs + 1 + n) (lazy_close body))
      else None)"

text \<open>\<open>/javascript:/gi\<close>\<close>

definition match_javascript :: "string \<Rightarrow> nat option" where
  "match_javascript s = (if startsWith_ci s ''javascript:'' then Some 11 else None)"

text \<open>
  \<open>/on\w+\s*=/gi\<close>: the runs of word characters and of white space are the longest
  ones, since neither a word character nor white space can stand for what follows.
\<close>

definition match_handler :: "string \<Rightarrow> nat option" where
  "match_handler s =
     (if startsWith_ci s ''on'' then
        (let r = drop 2 s; w = takeWhile word_char r; r' = dropWhile word_char r;
             sp = takeWhile space_char r' in
         case dropWhile space_char r' of
           [] \<Rightarrow> None
         | c # _ \<Rightarrow> if w \<noteq> [] \<and> c = CHR ''='' then Some (2 + length w + length sp + 1) else None)
      else None)"

section \<open>SecurityUtils: escaping and sanitizing\<close>

text \<open>
  \<open>escapeHTML(text)\<close>: the text is stored as \<open>textContent\<close> of a new element and read
  back as \<open>innerHTML\<close>, which writes the ampersand, the angle brackets and the
  no-break space (character 160) as entities.
\<close>

definition escape_char :: "char \<Rightarrow> string" where
  "escape_char c =
     (if c = CHR ''&'' then ''&amp;''
      else if c = CHR ''<'' then ''&lt;''
      else if c = CHR ''>'' then ''&gt;''
      else if (of_char c :: nat) = 160 then ''&nbsp;''
      else [c])"

definition escapeHTML :: "string \<Rightarrow> string" where
  "escapeHTML text = (if text = [] then [] else concat (map escape_char text))"

definition sanitizeText :: "string \<Rightarrow> string" where
  "sanitizeText text =
     (if text = [] then []
      else (let sanitized = escapeHTML text;
                sanitized = remove_matches match_script sanitized;
                sanitized = remove_matches match_javascript sanitized;
                sanitized = remove_matches match_handler sanitized
            in sanitized))"

section \<open>QRRedirectManager: validation and redirect\<close>

text \<open>
  The constructor \<open>new URL(string)\<close> belongs to the browser. It is an argument of the
  model: a function that gives the \<open>protocol\<close> of the parsed URL (the scheme in lower
  case followed by a colon), or \<open>None\<close> where the constructor throws.
\<close>

type_synonym url_ctor = "string \<Rightarrow> string option"

definition dangerousPatterns :: "string list" where
  "dangerousPatterns =
     [''javascript:'', ''data:'', ''vbscript:'', ''file:'', ''ftp:'', ''about:'', ''blob:'']"

text \<open>
  \<open>isValidURL(string)\<close>. The second component of the result is \<open>arguments[0]\<close> when
  the method returns: the method assigns the prefixed string to it in the branch for
  bare domains. The assignment changes the method's own argument only; the caller keeps
  the string it passed.
\<close>

definition isValidURL :: "url_ctor \<Rightarrow> string \<Rightarrow> bool \<times> string" where
  "isValidURL new_URL string =
     (case new_URL string of
        Some protocol \<Rightarrow>
          if protocol \<notin> set [''http:'', ''https:''] then (False, string)
          else if list_ex (\<lambda>pattern. includes_str (toLowerCase string) pattern) dangerousPatterns
               then (False, string)
          else (True, string)
      | None \<Rightarrow>
          if includes_str string ''.'' \<and> \<not> includes_str string '' '' then
            (let httpsUrl = (if startsWith string ''www.'' then ''https://'' @ string
                             else ''https://'' @ string) in
             case new_URL httpsUrl of
               Some _ \<Rightarrow> (True, httpsUrl)
             | None \<Rightarrow> (False, string))
          else (False, string))"

text \<open>
  What the redirect page ends with: \<open>window.location.href = url\<close>, the text shown by
  \<open>showTextContent\<close>, or the message shown by \<open>showError\<close>.
\<close>

datatype outcome = Navigate string | DisplayAsText string | ShowError string

text \<open>
  \<open>redirectToOriginal(originalText)\<close>. The branch for a valid URL assigns
  \<open>sanitizedText\<close>, the variable of this method, to \<open>window.location.href\<close>.
\<close>

definition redirectToOriginal :: "url_ctor \<Rightarrow> string \<Rightarrow> outcome" where
  "redirectToOriginal new_URL originalText =
     (let sanitizedText = sanitizeText originalText in
      if fst (isValidURL new_URL sanitizedText) then Navigate sanitizedText
      else DisplayAsText sanitizedText)"

text \<open>
  A URL constructor to run the model with. It follows the URL Standard through the
  scheme: leading and trailing control characters and spaces are dropped, tabs and
  newlines removed, the first character must be a letter, the scheme runs over letters,
  digits, plus, minus and dot and must end with a colon; without a scheme the
  constructor throws, since no base URL is given. Behind the scheme it is a coarse
  approximation: for the schemes http, https, ws, wss and ftp the host is what follows
  the slashes up to the next delimiter and must be non-empty and free of forbidden host
  characters; credentials, ports and address literals are not parsed.
\<close>

definition c0_or_space :: "char \<Rightarrow> bool" where
  "c0_or_space c = ((of_char c :: nat) \<le> 32)"

definition tab_or_newline :: "char \<Rightarrow> bool" where
  "tab_or_newline c = (let n = (of_char c :: nat) in n = 9 \<or> n = 10 \<or> n = 13)"

definition ascii_alpha :: "char \<Rightarrow> bool" where
  "ascii_alpha c = (let n = (of_char c :: nat) in (65 \<le> n \<and> n \<le> 90) \<or> (97 \<le> n \<and> n \<le> 122))"

definition scheme_char :: "char \<Rightarrow> bool" where
  "scheme_char c =
     (let n = (of_char c :: nat) in
      ascii_alpha c \<or> (48 \<le> n \<and> n \<le> 57) \<or> c = CHR ''+'' \<or> c = CHR ''-'' \<or> c = CHR ''.'')"

definition host_end :: "char \<Rightarrow> bool" where
  "host_end c = (c = CHR 0x5C \<or> c \<in> set ''/?#'')"

definition forbidden_host_char :: "char \<Rightarrow> bool" where
  "forbidden_host_char c =
     (let n = (of_char c :: nat) in n \<le> 32 \<or> n = 127 \<or> c = CHR 0x5C \<or> c \<in> set ''#%/:<>?@[]^|'')"

definition url_trim :: "string \<Rightarrow> string" where
  "url_trim s =
     filter (\<lambda>c. \<not> tab_or_newline c)
       (rev (dropWhile c0_or_space (rev (dropWhile c0_or_space s))))"

definition standard_URL :: url_ctor where
  "standard_URL input =
     (let s = url_trim input in
      case s of
        [] \<Rightarrow> None
      | c # _ \<Rightarrow>
          if \<not> ascii_alpha c then None
          else (case dropWhile scheme_char s of
                  [] \<Rightarrow> None
                | d # rest \<Rightarrow>
                    if d \<noteq> CHR '':'' then None
                    else (let scheme = map fold_ascii (takeWhile scheme_char s) in
                          if scheme \<in> set [''http'', ''https'', ''ws'', ''wss'', ''ftp''] then
                            (let host = takeWhile (\<lambda>c. \<not> host_end c)
                                          (dropWhile (\<lambda>c. c = CHR ''/'' \<or> c = CHR 0x5C) rest) in
                             if host \<noteq> [] \<and> \<not> list_ex forbidden_host_char host
                             then Some (scheme @ '':'') else None)
                          else Some (scheme @ '':''))))"

section \<open>Records, errors and the two storage tiers\<close>

text \<open>The object stored for one QR code.\<close>

record qr_data =
  qid :: string
  name :: string
  originalText :: string
  logoPath :: "string option"
  scanCount :: int
  createdAt :: int
  lastScanned :: "int option"

text \<open>
  An object that maps identifiers to records is the list of its entries in the order
  in which \<open>Object.entries\<close> and \<open>JSON.stringify\<close> go through them: \<open>obj[key]\<close> reads
  with \<open>map_of\<close>, and \<open>obj[key] = value\<close> replaces the entry of an existing key where it
  stands and puts a new key last. The list holds the object's own entries: for a key
  that names a property inherited from \<open>Object.prototype\<close> (\<open>constructor\<close>,
  \<open>toString\<close> and the like) the code reads the inherited value, which the model
  does not cover.
\<close>

type_synonym store = "(string \<times> qr_data) list"

fun store_set :: "string \<Rightarrow> qr_data \<Rightarrow> store \<Rightarrow> store" where
  "store_set k v [] = [(k, v)]"
| "store_set k v ((k', v') # al) = (if k = k' then (k, v) # al else (k', v') # store_set k v al)"

text \<open>
  Exceptions and rejected promises: an \<open>Error\<close> made by the code with its message, a
  rejected database operation, a failed write to \<open>localStorage\<close>.
\<close>

datatype js_error = Error string | DatabaseError | StorageError

definition save_failed :: js_error where
  "save_failed = Error ''Failed to save QR code. Please try again.''"

definition load_failed :: js_error where
  "load_failed = Error ''Failed to load QR code data.''"

text \<open>
  An entry of \<open>localStorage\<close>: missing, present with a value that cannot be decoded
  (decryption or \<open>JSON.parse\<close> throws), or present with a decodable object.
\<close>

datatype 'a slot = Absent | Unreadable | Holds 'a

text \<open>
  What the code runs against. \<open>firebase_ready\<close> is the test
  \<open>typeof firebase !== 'undefined' && window.database\<close> that every method of
  \<open>FirebaseManager\<close> branches on. \<open>firebaseInitialized\<close> and \<open>databaseAvailable\<close>
  are the two status variables of the module: the start-up script sets both to true
  once \<open>window.database\<close> is assigned and both to false in its handler, and the
  connection monitor keeps \<open>databaseAvailable\<close> at the state that the database
  reports. \<open>reads_ok\<close> and \<open>writes_ok\<close> say whether the promises
  of database reads and of database writes resolve; \<open>remote\<close> holds the children of
  \<open>qr-codes\<close>; \<open>server_time\<close> is what the server puts for \<open>ServerValue.TIMESTAMP\<close>.
  \<open>crypto_ok\<close> says whether the key can be made or imported and encryption and
  decryption work, \<open>quota_ok\<close> whether \<open>localStorage.setItem\<close> succeeds;
  \<open>encrypted_slot\<close> is the entry \<open>encrypted_qr-codes\<close> and \<open>plain_slot\<close> the entry
  \<open>qr-codes\<close> of \<open>localStorage\<close>.
\<close>

record world =
  firebase_ready :: bool
  firebaseInitialized :: bool
  databaseAvailable :: bool
  reads_ok :: bool
  writes_ok :: bool
  server_time :: int
  remote :: store
  crypto_ok :: bool
  quota_ok :: bool
  encrypted_slot :: "store slot"
  plain_slot :: "store slot"

subsection \<open>FirebaseStatus and the connection monitor\<close>

text \<open>\<open>FirebaseStatus.isAvailable()\<close> and \<open>FirebaseStatus.isInitialized()\<close>.\<close>

definition FirebaseStatus_isAvailable :: "world \<Rightarrow> bool" where
  "FirebaseStatus_isAvailable w = (firebaseInitialized w \<and> databaseAvailable w)"

definition FirebaseStatus_isInitialized :: "world \<Rightarrow> bool" where
  "FirebaseStatus_isInitialized w = firebaseInitialized w"

text \<open>
  The listener on \<open>.info/connected\<close>:
  \<open>databaseAvailable = snapshot.val() === true\<close>.
\<close>

definition connection_changed :: "bool \<Rightarrow> world \<Rightarrow> world" where
  "connection_changed connected w = w\<lparr>databaseAvailable := connected\<rparr>"

text \<open>
  The networked backend is reachable: the database object exists and the status says
  that it is initialized and connected.
\<close>

definition reachable :: "world \<Rightarrow> bool" where
  "reachable w = (firebase_ready w \<and> FirebaseStatus_isAvailable w)"

subsection \<open>CryptoManager\<close>

text \<open>
  \<open>CryptoManager.setItem('qr-codes', data)\<close>: the encrypted entry is written; when
  anything in that attempt throws, the handler writes the plain entry instead, and an
  exception of that second write leaves the method.
\<close>

definition setItem :: "store \<Rightarrow> world \<Rightarrow> js_error + world" where
  "setItem data w =
     (if crypto_ok w \<and> quota_ok w then Inr (w\<lparr>encrypted_slot := Holds data\<rparr>)
      else if quota_ok w then Inr (w\<lparr>plain_slot := Holds data\<rparr>)
      else Inl StorageError)"

text \<open>
  \<open>CryptoManager.getItem('qr-codes')\<close>: the encrypted entry is decrypted when it is
  there; otherwise a plain entry is parsed, stored again through \<open>setItem\<close>, removed
  from \<open>localStorage\<close> and returned. Every exception is caught and gives \<open>null\<close>.
\<close>

definition getItem :: "world \<Rightarrow> store option \<times> world" where
  "getItem w =
     (case encrypted_slot w of
        Holds data \<Rightarrow> if crypto_ok w then (Some data, w) else (None, w)
      | Unreadable \<Rightarrow> (None, w)
      | Absent \<Rightarrow>
          (case plain_slot w of
             Absent \<Rightarrow> (None, w)
           | Unreadable \<Rightarrow> (None, w)
           | Holds data \<Rightarrow>
               (case setItem data w of
                  Inl e \<Rightarrow> (None, w)
                | Inr w' \<Rightarrow> (Some data, w'\<lparr>plain_slot := Absent\<rparr>))))"

text \<open>\<open>await SecurityUtils.CryptoManager.getItem('qr-codes') || {}\<close>\<close>

definition getItem_or_empty :: "world \<Rightarrow> store \<times> world" where
  "getItem_or_empty w = (case getItem w of (None, w') \<Rightarrow> ([], w') | (Some data, w') \<Rightarrow> (data, w'))"

subsection \<open>Identifiers\<close>

text \<open>\<open>Number.prototype.toString(36)\<close> on an integer.\<close>

definition digit36 :: "nat \<Rightarrow> char" where
  "digit36 d = ''0123456789abcdefghijklmnopqrstuvwxyz'' ! d"

fun digits36 :: "nat \<Rightarrow> string" where
  "digits36 n = (if n < 36 then [digit36 n] else digits36 (n div 36) @ [digit36 (n mod 36)])"

declare digits36.simps [simp del]

definition toString36 :: "int \<Rightarrow> string" where
  "toString36 i = (if i < 0 then CHR ''-'' # digits36 (nat (- i)) else digits36 (nat i))"

text \<open>\<open>s.substr(start, length)\<close> for a start inside the non-negative range.\<close>

definition substr :: "nat \<Rightarrow> nat \<Rightarrow> string \<Rightarrow> string" where
  "substr start len s = take len (drop start s)"

text \<open>
  \<open>generateUniqueId()\<close>. Its arguments are the value of \<open>Date.now()\<close> and the string
  \<open>Math.random().toString(36)\<close>.
\<close>

definition generateUniqueId :: "int \<Rightarrow> string \<Rightarrow> string" where
  "generateUniqueId now random36 =
     (let timestamp = toString36 now; randomStr = substr 2 9 random36
      in timestamp @ ''_'' @ randomStr)"

text \<open>The part of an identifier behind its first separator.\<close>

definition after_separator :: "string \<Rightarrow> string" where
  "after_separator s = drop 1 (dropWhile (\<lambda>c. c \<noteq> CHR ''_'') s)"

definition before_separator :: "string \<Rightarrow> string" where
  "before_separator s = takeWhile (\<lambda>c. c \<noteq> CHR ''_'') s"

subsection \<open>FirebaseManager\<close>





text \<open>
  \<open>createQRCode(originalText, name, logoPath)\<close>, with the clock and the random string
  that \<open>generateUniqueId\<close> and \<open>createdAt\<close> use. Any exception is caught and replaced by
  the error with the message of \<open>save_failed\<close>.
\<close>

definition createQRCode ::
  "int \<Rightarrow> string \<Rightarrow> string \<Rightarrow> string \<Rightarrow> string option \<Rightarrow> world \<Rightarrow> (js_error + string) \<times> world" where
  "createQRCode now random36 text nm logo w =
     (let qrId = generateUniqueId now random36;
          qrData = \<lparr>qid = qrId, name = nm, originalText = text, logoPath = logo,
                    scanCount = 0, createdAt = now, lastScanned = None\<rparr>
      in if firebase_ready w then
           (if writes_ok w
            then (Inr qrId, w\<lparr>remote := store_set qrId (qrData\<lparr>createdAt := server_time w\<rparr>) (remote w)\<rparr>)
            else (Inl save_failed, w))
         else
           (let (localQRs, w') = getItem_or_empty w
            in case setItem (store_set qrId qrData localQRs) w' of
                 Inl e \<Rightarrow> (Inl save_failed, w')
               | Inr w'' \<Rightarrow> (Inr qrId, w'')))"

text \<open>
  \<open>getQRCode(qrId)\<close>: an empty identifier throws inside the \<open>try\<close>; any exception is
  caught and replaced by the error with the message of \<open>load_failed\<close>.
\<close>

definition getQRCode :: "string \<Rightarrow> world \<Rightarrow> (js_error + qr_data option) \<times> world" where
  "getQRCode qrId w =
     (if qrId = [] then (Inl load_failed, w)
      else if firebase_ready w then
        (if reads_ok w then (Inr (map_of (remote w) qrId), w) else (Inl load_failed, w))
      else
        (let (localQRs, w') = getItem_or_empty w in (Inr (map_of localQRs qrId), w')))"

text \<open>The update that both branches of \<open>incrementScanCount\<close> apply to a record.\<close>

definition scanned :: "int \<Rightarrow> qr_data \<Rightarrow> qr_data" where
  "scanned time d = d\<lparr>scanCount := scanCount d + 1, lastScanned := Some time\<rparr>"

text \<open>
  The \<open>try\<close> block of \<open>incrementScanCount(qrId)\<close>: the exception it ends with, if any,
  and the world it leaves. The transaction updates an existing child and leaves a
  missing one missing.
\<close>

definition incrementScanCount_try :: "int \<Rightarrow> string \<Rightarrow> world \<Rightarrow> js_error option \<times> world" where
  "incrementScanCount_try now qrId w =
     (if firebase_ready w then
        (if writes_ok w then
           (case map_of (remote w) qrId of
              None \<Rightarrow> (None, w)
            | Some currentData \<Rightarrow>
                (None, w\<lparr>remote := store_set qrId (scanned (server_time w) currentData) (remote w)\<rparr>))
         else (Some DatabaseError, w))
      else
        (let (localQRs, w') = getItem_or_empty w in
         case map_of localQRs qrId of
           None \<Rightarrow> (None, w')
         | Some d \<Rightarrow>
             (case setItem (store_set qrId (scanned now d) localQRs) w' of
                Inl e \<Rightarrow> (Some e, w')
              | Inr w'' \<Rightarrow> (None, w''))))"

text \<open>\<open>incrementScanCount(qrId)\<close>: the handler logs the exception and does not throw.\<close>

definition incrementScanCount :: "int \<Rightarrow> string \<Rightarrow> world \<Rightarrow> (js_error + unit) \<times> world" where
  "incrementScanCount now qrId w = (Inr (), snd (incrementScanCount_try now qrId w))"

section \<open>QRRedirectManager: resolution\<close>

text \<open>JSON values, for the object carried by the parameter \<open>data\<close> of the link.\<close>

datatype json = JNull | JBool bool | JNum int | JStr string | JArr "json list"
  | JObj "(string \<times> json) list"

text \<open>
  \<open>getFallbackDataFromURL()\<close>. The argument \<open>encodedData\<close> is the result of
  \<open>urlParams.get('data')\<close>: \<open>None\<close> for a link without the parameter. The browser's
  \<open>decodeURIComponent\<close>, \<open>atob\<close> and \<open>JSON.parse\<close> are arguments of the model; each
  of them returns a value or throws. The first definition is the \<open>try\<close> block, the
  second one the method with its handler.
\<close>

definition getFallbackDataFromURL_try ::
  "(string \<Rightarrow> js_error + string) \<Rightarrow> (string \<Rightarrow> js_error + string) \<Rightarrow> (string \<Rightarrow> js_error + json)
     \<Rightarrow> string option \<Rightarrow> js_error + json" where
  "getFallbackDataFromURL_try decodeURIComponent atob JSON_parse encodedData =
     (case encodedData of
        None \<Rightarrow> Inr JNull
      | Some e \<Rightarrow>
          if e = [] then Inr JNull
          else (case decodeURIComponent e of
                  Inl err \<Rightarrow> Inl err
                | Inr u \<Rightarrow> (case atob u of
                              Inl err \<Rightarrow> Inl err
                            | Inr decodedData \<Rightarrow> JSON_parse decodedData)))"

definition getFallbackDataFromURL ::
  "(string \<Rightarrow> js_error + string) \<Rightarrow> (string \<Rightarrow> js_error + string) \<Rightarrow> (string \<Rightarrow> js_error + json)
     \<Rightarrow> string option \<Rightarrow> js_error + json" where
  "getFallbackDataFromURL decodeURIComponent atob JSON_parse encodedData =
     (case getFallbackDataFromURL_try decodeURIComponent atob JSON_parse encodedData of
        Inl error \<Rightarrow> Inr JNull
      | Inr v \<Rightarrow> Inr v)"

text \<open>The fields that the constructor of \<open>QRRedirectManager\<close> sets.\<close>

record redirect_manager =
  qrId :: "string option"
  fallbackData :: json

definition missing_identifier :: string where
  "missing_identifier = ''Invalid QR code link. Missing identifier.''"

definition content_not_found :: string where
  "content_not_found =
     ''QR code content not found. The code may have expired or the database may be temporarily unavailable.''"

text \<open>
  The three reads of \<open>init()\<close>, each in its own \<open>try\<close>: the database through
  \<open>getQRCode\<close>, the encrypted store through \<open>CryptoManager.getItem\<close>, the plain entry
  of \<open>localStorage\<close>. A later one runs when the earlier ones gave no record.
\<close>

definition init_sources :: "string \<Rightarrow> world \<Rightarrow> qr_data option \<times> world" where
  "init_sources i w =
     (let (r, w1) = getQRCode i w;
          qrData = (case r of Inl e \<Rightarrow> None | Inr v \<Rightarrow> v);
          (qrData, w2) = (case qrData of
                            Some d \<Rightarrow> (Some d, w1)
                          | None \<Rightarrow> (let (localQRs, w') = getItem_or_empty w1
                                     in (map_of localQRs i, w')));
          qrData = (case qrData of
                      Some d \<Rightarrow> Some d
                    | None \<Rightarrow> (case plain_slot w2 of
                                 Holds parsedData \<Rightarrow> map_of parsedData i
                               | _ \<Rightarrow> None))
      in (qrData, w2))"

text \<open>
  \<open>init()\<close>, with the clock for the scan and the URL constructor for the redirect:
  the outcome shown to the user and the world after the call. The method reads
  \<open>this.qrId\<close> and no other field of the manager. The preview line that the method
  writes into the page and the delay before the redirect are left out.
\<close>

definition init :: "int \<Rightarrow> url_ctor \<Rightarrow> redirect_manager \<Rightarrow> world \<Rightarrow> outcome \<times> world" where
  "init now new_URL this w =
     (case qrId this of
        None \<Rightarrow> (ShowError missing_identifier, w)
      | Some i \<Rightarrow>
          if i = [] then (ShowError missing_identifier, w)
          else (case init_sources i w of
                  (None, w') \<Rightarrow> (ShowError content_not_found, w')
                | (Some qrData, w') \<Rightarrow>
                    (let (tracked, w'') = incrementScanCount now i w'
                     in (redirectToOriginal new_URL (originalText qrData), w''))))"

section \<open>Sample inputs\<close>

text \<open>Records and worlds on which the model is run below.\<close>

definition sample_record :: "string \<Rightarrow> string \<Rightarrow> string \<Rightarrow> int \<Rightarrow> qr_data" where
  "sample_record i nm text created =
     \<lparr>qid = i, name = nm, originalText = text, logoPath = None, scanCount = 0,
      createdAt = created, lastScanned = None\<rparr>"

text \<open>
  A browser with the database, initialized and connected: reads resolve, writes resolve
  or not, nothing stored locally.
\<close>

definition online_world :: "bool \<Rightarrow> store \<Rightarrow> world" where
  "online_world writes st =
     \<lparr>firebase_ready = True, firebaseInitialized = True, databaseAvailable = True,
      reads_ok = True, writes_ok = writes, server_time = 9000,
      remote = st, crypto_ok = True, quota_ok = True,
      encrypted_slot = Absent, plain_slot = Absent\<rparr>"

text \<open>A browser without the database, with the given local entries; encryption works or not.\<close>

definition offline_world :: "bool \<Rightarrow> store slot \<Rightarrow> store slot \<Rightarrow> world" where
  "offline_world crypto enc plain =
     \<lparr>firebase_ready = False, firebaseInitialized = False, databaseAvailable = False,
      reads_ok = False, writes_ok = False, server_time = 9000,
      remote = [], crypto_ok = crypto, quota_ok = True,
      encrypted_slot = enc, plain_slot = plain\<rparr>"

text \<open>The inline payload of the fallback scenario.\<close>

definition demo_payload :: json where
  "demo_payload = JObj [(''content'', JStr ''https://example.com''), (''label'', JStr ''Demo'')]"

section \<open>Properties\<close>

subsection \<open>Properties of the rate limiter\<close>

lemma requests_set_fields [simp]:
  "userRequests (requests_set rl u ts) u = ts"
  "maxRequests (requests_set rl u ts) = maxRequests rl"
  "timeWindow (requests_set rl u ts) = timeWindow rl"
  by (simp_all add: requests_set_def userRequests_def)

lemma requests_set_twice [simp]:
  "requests_set (requests_set rl u ts) u ts' = requests_set rl u ts'"
  by (simp add: requests_set_def)

lemma calls_append:
  "calls u (xs @ ys) rl =
     (let (bs, rl') = calls u xs rl; (cs, rl'') = calls u ys rl' in (bs @ cs, rl''))"
  by (induction xs arbitrary: rl) (auto simp: Let_def split: prod.splits)

lemma canMakeRequest_consts:
  "maxRequests (snd (canMakeRequest now u rl)) = maxRequests rl"
  "timeWindow (snd (canMakeRequest now u rl)) = timeWindow rl"
  by (simp_all add: canMakeRequest_def Let_def)

lemma canMakeRequest_step:
  "canMakeRequest now u rl =
     (if length (recentRequests rl now u) < maxRequests rl
      then (True, requests_set rl u (recentRequests rl now u @ [now]))
      else (False, rl))"
  by (simp add: canMakeRequest_def Let_def)

text \<open>
  While at most \<open>maxRequests\<close> calls are made and every earlier call is still inside the
  window of every later one, each call is allowed and the history is the list of calls.
\<close>

lemma calls_all_allowed:
  assumes "userRequests rl u = []"
    and "length ts \<le> maxRequests rl"
    and "sorted ts"
    and "ts \<noteq> []"
    and "last ts - hd ts < timeWindow rl"
  shows "calls u ts rl = (replicate (length ts) True, requests_set rl u ts)"
  using assms
proof (induction ts rule: rev_induct)
  case Nil
  then show ?case by simp
next
  case (snoc t ts)
  show ?case
  proof (cases "ts = []")
    case True
    from snoc.prems have "recentRequests rl t u = []"
      by (simp add: recentRequests_def)
    moreover from snoc.prems have "0 < maxRequests rl" by simp
    ultimately have "canMakeRequest t u rl = (True, requests_set rl u [t])"
      by (simp add: canMakeRequest_step)
    with True show ?thesis by simp
  next
    case False
    from snoc.prems False have srt: "sorted ts" and le: "\<forall>x\<in>set ts. x \<le> t"
      by (auto simp: sorted_append)
    from False have hd_eq: "hd (ts @ [t]) = hd ts" by simp
    from False srt have hd_le: "\<forall>x\<in>set ts. hd ts \<le> x"
      by (cases ts) auto
    from False have "last ts \<in> set ts" by simp
    with le have "last ts \<le> t" by blast
    with snoc.prems hd_eq have win: "last ts - hd ts < timeWindow rl" by simp
    from snoc.prems have len: "length ts \<le> maxRequests rl" by simp
    note IH = snoc.IH [OF snoc.prems(1) len srt False win]
    let ?rl = "requests_set rl u ts"
    from snoc.prems hd_eq hd_le have "\<forall>x\<in>set ts. t - x < timeWindow rl"
      by fastforce
    then have keep: "recentRequests ?rl t u = ts"
      by (simp add: recentRequests_def)
    from snoc.prems have "length ts < maxRequests rl" by simp
    with keep have "canMakeRequest t u ?rl = (True, requests_set rl u (ts @ [t]))"
      by (simp add: canMakeRequest_def Let_def)
    with IH show ?thesis
      by (simp add: calls_append replicate_append_same)
  qed
qed

text \<open>
  Claim C5. A call of \<open>canMakeRequest\<close> on a limiter made by the constructor and then
  used (quota 10, window 60000 ms) keeps the user's timestamps younger than 60000 ms;
  with fewer than 10 of them it stores them followed by the current timestamp and
  returns true, otherwise it returns false and the limiter is unchanged. From a user
  without recorded requests, ten calls at non-decreasing times followed by an eleventh
  less than 60000 ms after the first return true ten times and then false, and a call
  made 60000 ms or more after the first call returns true again.
\<close>

lemma calls_eleven_twelve:
  assumes quota: "maxRequests rl = 10" and window: "timeWindow rl = 60000"
    and empty: "userRequests rl u = []" and len: "length ts = 10"
    and srt: "sorted (ts @ [t11, t12])"
    and inside: "t11 - hd ts < 60000" and after: "t12 - hd ts \<ge> 60000"
  shows "fst (calls u (ts @ [t11, t12]) rl) = replicate 10 True @ [False, True]"
proof -
  from len have ne: "ts \<noteq> []" by auto
  from srt have srt_ts: "sorted ts" and le11: "\<forall>x\<in>set ts. x \<le> t11"
    by (auto simp: sorted_append)
  from ne have "last ts \<in> set ts" by simp
  with le11 have "last ts \<le> t11" by blast
  with inside window have win: "last ts - hd ts < timeWindow rl" by simp
  from len quota have len': "length ts \<le> maxRequests rl" by simp
  let ?rl = "requests_set rl u ts"
  have first10: "calls u ts rl = (replicate (length ts) True, ?rl)"
    by (rule calls_all_allowed [OF empty len' srt_ts ne win])
  from ne srt_ts have hd_le: "\<forall>x\<in>set ts. hd ts \<le> x"
    by (cases ts) auto
  with inside have "\<forall>x\<in>set ts. t11 - x < 60000" by fastforce
  then have keep11: "recentRequests ?rl t11 u = ts"
    using window by (simp add: recentRequests_def)
  with len quota have c11: "canMakeRequest t11 u ?rl = (False, ?rl)"
    by (simp add: canMakeRequest_step)
  from ne obtain t1 rest where ts_eq: "ts = t1 # rest" by (cases ts) auto
  from after window ts_eq have "\<not> (t12 - t1 < timeWindow rl)" by simp
  with ts_eq have "recentRequests ?rl t12 u = filter (\<lambda>t. t12 - t < timeWindow rl) rest"
    by (simp add: recentRequests_def)
  then have "length (recentRequests ?rl t12 u) \<le> length rest"
    by simp
  with len ts_eq have "length (recentRequests ?rl t12 u) < 10" by simp
  with quota obtain rl12 where c12: "canMakeRequest t12 u ?rl = (True, rl12)"
    by (simp add: canMakeRequest_step)
  from first10 c11 c12 len show ?thesis
    by (simp add: calls_append)
qed

text \<open>
  Claim C5. A call of \<open>canMakeRequest\<close> on a limiter with the constructor's quota
  (10) and window (60000 ms) keeps the user's timestamps younger than 60000 ms; with
  fewer than 10 of them it stores them followed by the current timestamp and returns
  true, otherwise it returns false and the limiter is unchanged. From a user without
  recorded requests, ten calls at non-decreasing times followed by an eleventh less
  than 60000 ms after the first return true ten times and then false, and a call made
  60000 ms or more after the first call returns true again.
\<close>

theorem canMakeRequest_window:
  assumes quota: "maxRequests rl = 10" and window: "timeWindow rl = 60000"
  shows "canMakeRequest now u rl =
           (let kept = filter (\<lambda>t. now - t < 60000) (userRequests rl u) in
            if length kept < 10
            then (True, requests_set rl u (kept @ [now]))
            else (False, rl))
       \<and> (userRequests rl u = [] \<and> length ts = 10 \<and> sorted (ts @ [t11, t12]) \<and>
          t11 - hd ts < 60000 \<and> t12 - hd ts \<ge> 60000 \<longrightarrow>
          fst (calls u (ts @ [t11, t12]) rl) = replicate 10 True @ [False, True])"
proof (intro conjI impI)
  show "canMakeRequest now u rl =
           (let kept = filter (\<lambda>t. now - t < 60000) (userRequests rl u) in
            if length kept < 10
            then (True, requests_set rl u (kept @ [now]))
            else (False, rl))"
    using quota window by (simp add: canMakeRequest_step recentRequests_def Let_def)
next
  assume "userRequests rl u = [] \<and> length ts = 10 \<and> sorted (ts @ [t11, t12]) \<and>
          t11 - hd ts < 60000 \<and> t12 - hd ts \<ge> 60000"
  with quota window show "fst (calls u (ts @ [t11, t12]) rl) = replicate 10 True @ [False, True]"
    by (intro calls_eleven_twelve) simp_all
qed

theorem canMakeRequest_window_witness:
  "maxRequests RateLimiter_new = 10 \<and> timeWindow RateLimiter_new = 60000 \<and>
   userRequests RateLimiter_new ''anonymous'' = [] \<and>
   length [1000, 2000, 3000, 4000, 5000, 6000, 7000, 8000, 9000, 10000 :: int] = 10 \<and>
   sorted ([1000, 2000, 3000, 4000, 5000, 6000, 7000, 8000, 9000, 10000] @ [60999, 61000 :: int]) \<and>
   60999 - hd [1000, 2000, 3000, 4000, 5000, 6000, 7000, 8000, 9000, 10000 :: int] < 60000 \<and>
   61000 - hd [1000, 2000, 3000, 4000, 5000, 6000, 7000, 8000, 9000, 10000 :: int] \<ge> 60000 \<and>
   canMakeRequest 1000 ''anonymous'' RateLimiter_new =
     (True, requests_set RateLimiter_new ''anonymous'' [1000]) \<and>
   fst (calls ''anonymous''
         ([1000, 2000, 3000, 4000, 5000, 6000, 7000, 8000, 9000, 10000] @ [60999, 61000])
         RateLimiter_new) = replicate 10 True @ [False, True]"
proof -
  let ?ts = "[1000, 2000, 3000, 4000, 5000, 6000, 7000, 8000, 9000, 10000 :: int]"
  have q: "maxRequests RateLimiter_new = 10" and w: "timeWindow RateLimiter_new = 60000"
    by (simp_all add: RateLimiter_new_def)
  have e: "userRequests RateLimiter_new ''anonymous'' = []"
    by (simp add: RateLimiter_new_def userRequests_def)
  have l: "length ?ts = 10" and s: "sorted (?ts @ [60999, 61000 :: int])"
    and i: "60999 - hd ?ts < 60000" and a: "61000 - hd ?ts \<ge> 60000"
    by simp_all
  note T = canMakeRequest_window [OF q w, of 1000 "''anonymous''" ?ts 60999 61000]
  from T e have A: "canMakeRequest 1000 ''anonymous'' RateLimiter_new =
     (True, requests_set RateLimiter_new ''anonymous'' [1000])"
    by (simp only: Let_def filter.simps list.size append_Nil) simp
  from e l s i a have B: "fst (calls ''anonymous'' (?ts @ [60999, 61000]) RateLimiter_new)
      = replicate 10 True @ [False, True]"
    by (intro T [THEN conjunct2, THEN mp] conjI)
  from q w e l s i a A B show ?thesis
    by (intro conjI)
qed

subsection \<open>Properties of the identifier generator\<close>

lemma digit36_not_sep: "d < 36 \<Longrightarrow> digit36 d \<noteq> CHR ''_''"
proof -
  assume "d < 36"
  then have "digit36 d \<in> set ''0123456789abcdefghijklmnopqrstuvwxyz''"
    unfolding digit36_def by (intro nth_mem) simp
  then show ?thesis by auto
qed

lemma digits36_no_sep: "CHR ''_'' \<notin> set (digits36 n)"
proof (induction n rule: digits36.induct)
  case (1 n)
  show ?case
  proof (cases "n < 36")
    case True
    then show ?thesis using digit36_not_sep [of n] by (subst digits36.simps) auto
  next
    case False
    with 1 have "CHR ''_'' \<notin> set (digits36 (n div 36))" by simp
    moreover have "digit36 (n mod 36) \<noteq> CHR ''_''" by (rule digit36_not_sep) simp
    ultimately show ?thesis using False by (subst digits36.simps) auto
  qed
qed

lemma toString36_no_sep: "CHR ''_'' \<notin> set (toString36 i)"
  by (simp add: toString36_def digits36_no_sep)

lemma before_sep: "CHR ''_'' \<notin> set a \<Longrightarrow> before_separator (a @ ''_'' @ b) = a"
  by (induction a) (auto simp: before_separator_def)

lemma after_sep: "CHR ''_'' \<notin> set a \<Longrightarrow> after_separator (a @ ''_'' @ b) = b"
  by (induction a) (auto simp: after_separator_def)

text \<open>
  Claim C8, as the code has it. The identifier is the base-36 text of the timestamp, the
  separator \<open>_\<close> and the characters 2 to 10 of the base-36 text of the random number.
  The timestamp holds no separator, so the part behind the first separator is that
  suffix; its length is the smaller of 9 and the number of characters the random text
  has behind its first two: at most 9, and less than 9 for a short random text.
\<close>

theorem generateUniqueId_shape:
  "generateUniqueId now random36 = toString36 now @ ''_'' @ take 9 (drop 2 random36)
   \<and> before_separator (generateUniqueId now random36) = toString36 now
   \<and> after_separator (generateUniqueId now random36) = take 9 (drop 2 random36)
   \<and> length (after_separator (generateUniqueId now random36)) = min 9 (length random36 - 2)"
  using toString36_no_sep [of now]
  by (simp add: generateUniqueId_def substr_def Let_def before_sep after_sep del: append.simps)

text \<open>
  Claim C8 as stated fails: when \<open>Math.random()\<close> returns 0.5, whose base-36 text is
  \<open>0.i\<close>, the part of the identifier behind the separator has one character.
\<close>

theorem generateUniqueId_short_suffix:
  "generateUniqueId 1700000000000 ''0.i'' = ''loyw3v28_i''
   \<and> length (after_separator (generateUniqueId 1700000000000 ''0.i'')) = 1"
  by (simp add: generateUniqueId_def substr_def toString36_def digits36.simps digit36_def
      after_separator_def)

subsection \<open>Properties of the fallback payload\<close>

text \<open>
  Claim C10. For every value of the parameter \<open>data\<close>, also a missing one, and
  whatever \<open>decodeURIComponent\<close>, \<open>atob\<close> and \<open>JSON.parse\<close> do with it,
  \<open>getFallbackDataFromURL\<close> returns and does not throw: the value is \<open>null\<close>, or it
  is the value that \<open>JSON.parse\<close> gave for the decoded parameter.
\<close>

theorem getFallbackDataFromURL_total:
  "(\<forall>e. getFallbackDataFromURL D A J p \<noteq> Inl e)
   \<and> (getFallbackDataFromURL D A J p = Inr JNull
      \<or> (\<exists>e u d v. p = Some e \<and> D e = Inr u \<and> A u = Inr d \<and> J d = Inr v
            \<and> getFallbackDataFromURL D A J p = Inr v))"
  by (auto simp: getFallbackDataFromURL_def getFallbackDataFromURL_try_def
      split: option.splits sum.splits)

subsection \<open>Properties of the redirect\<close>

lemma sanitize_javascript: "sanitizeText ''javascript:alert(1)'' = ''alert(1)''"
  by code_simp

lemma isValidURL_alert:
  assumes "new_URL ''alert(1)'' \<noteq> Some ''http:''" and "new_URL ''alert(1)'' \<noteq> Some ''https:''"
  shows "fst (isValidURL new_URL ''alert(1)'') = False"
proof (cases "new_URL ''alert(1)''")
  case None
  then show ?thesis by (simp add: isValidURL_def)
next
  case (Some p)
  with assms have "p \<noteq> ''http:''" "p \<noteq> ''https:''" by auto
  with Some show ?thesis by (simp add: isValidURL_def)
qed

lemma init_found:
  assumes "qrId this = Some i" and "i \<noteq> []" and "init_sources i w = (Some d, w')"
  shows "init now new_URL this w =
           (redirectToOriginal new_URL (originalText d), snd (incrementScanCount_try now i w'))"
  using assms by (simp add: init_def incrementScanCount_def)

lemma init_not_found:
  assumes "qrId this = Some i" and "i \<noteq> []" and "init_sources i w = (None, w')"
  shows "init now new_URL this w = (ShowError content_not_found, w')"
  using assms by (simp add: init_def)

lemma init_ignores_fallbackData:
  "init now new_URL (this\<lparr>fallbackData := payload\<rparr>) w = init now new_URL this w"
  by (simp add: init_def)

lemma standard_URL_alert: "standard_URL ''alert(1)'' = None"
  by code_simp

lemma init_sources_online:
  "i \<noteq> [] \<Longrightarrow> map_of st i = Some d \<Longrightarrow> init_sources i (online_world b st) = (Some d, online_world b st)"
  by (simp add: init_sources_def getQRCode_def online_world_def)

text \<open>
  Claim C3. Let the URL constructor not read \<open>alert(1)\<close> as an http or https URL (the
  browser's constructor throws on it, as it has no scheme). Then the redirect of the
  content \<open>javascript:alert(1)\<close> is no navigation: it shows a text, the sanitized
  content \<open>alert(1)\<close>. So does every run of \<open>init\<close> whose sources give a record with
  that content.
\<close>

theorem javascript_content_displayed:
  assumes "new_URL ''alert(1)'' \<noteq> Some ''http:''" and "new_URL ''alert(1)'' \<noteq> Some ''https:''"
  shows "redirectToOriginal new_URL ''javascript:alert(1)'' = DisplayAsText ''alert(1)''
       \<and> (\<forall>now this w i d w'. qrId this = Some i \<and> i \<noteq> [] \<and> init_sources i w = (Some d, w')
              \<and> originalText d = ''javascript:alert(1)''
            \<longrightarrow> fst (init now new_URL this w) = DisplayAsText ''alert(1)'')"
proof -
  have r: "redirectToOriginal new_URL ''javascript:alert(1)'' = DisplayAsText ''alert(1)''"
    using isValidURL_alert [of new_URL, OF assms]
    by (simp only: redirectToOriginal_def sanitize_javascript Let_def) simp
  then show ?thesis by (auto simp: init_found)
qed

theorem javascript_content_displayed_witness:
  "standard_URL ''alert(1)'' \<noteq> Some ''http:'' \<and> standard_URL ''alert(1)'' \<noteq> Some ''https:''
   \<and> qrId \<lparr>qrId = Some ''k1'', fallbackData = JNull\<rparr> = Some ''k1'' \<and> ''k1'' \<noteq> []
   \<and> init_sources ''k1'' (online_world True [(''k1'', sample_record ''k1'' ''x'' ''javascript:alert(1)'' 7000)])
       = (Some (sample_record ''k1'' ''x'' ''javascript:alert(1)'' 7000),
          online_world True [(''k1'', sample_record ''k1'' ''x'' ''javascript:alert(1)'' 7000)])
   \<and> originalText (sample_record ''k1'' ''x'' ''javascript:alert(1)'' 7000) = ''javascript:alert(1)''
   \<and> redirectToOriginal standard_URL ''javascript:alert(1)'' = DisplayAsText ''alert(1)''
   \<and> fst (init 8000 standard_URL \<lparr>qrId = Some ''k1'', fallbackData = JNull\<rparr>
             (online_world True [(''k1'', sample_record ''k1'' ''x'' ''javascript:alert(1)'' 7000)]))
       = DisplayAsText ''alert(1)''"
proof -
  let ?d = "sample_record ''k1'' ''x'' ''javascript:alert(1)'' 7000"
  let ?w = "online_world True [(''k1'', ?d)]"
  let ?m = "\<lparr>qrId = Some ''k1'', fallbackData = JNull\<rparr>"
  have h: "standard_URL ''alert(1)'' \<noteq> Some ''http:''" "standard_URL ''alert(1)'' \<noteq> Some ''https:''"
    by (simp_all add: standard_URL_alert)
  have s: "init_sources ''k1'' ?w = (Some ?d, ?w)"
    by (rule init_sources_online) simp_all
  have t: "originalText ?d = ''javascript:alert(1)''"
    by (simp add: sample_record_def)
  note T = javascript_content_displayed [of standard_URL, OF h]
  from T have a: "redirectToOriginal standard_URL ''javascript:alert(1)'' = DisplayAsText ''alert(1)''"
    by (rule conjunct1)
  from T have "qrId ?m = Some ''k1'' \<and> ''k1'' \<noteq> [] \<and> init_sources ''k1'' ?w = (Some ?d, ?w)
      \<and> originalText ?d = ''javascript:alert(1)''
      \<longrightarrow> fst (init 8000 standard_URL ?m ?w) = DisplayAsText ''alert(1)''"
    by blast
  with s t have b: "fst (init 8000 standard_URL ?m ?w) = DisplayAsText ''alert(1)''"
    by simp
  from h s t a b show ?thesis by simp
qed

text \<open>A navigation always goes to the sanitized text itself.\<close>

lemma redirect_target:
  "redirectToOriginal new_URL text = Navigate u \<Longrightarrow> u = sanitizeText text"
  by (simp add: redirectToOriginal_def Let_def split: if_splits)

text \<open>
  For a string that the URL constructor rejects as it is and accepts behind
  \<open>https://\<close>, \<open>isValidURL\<close> answers true and holds the prefixed string in its own
  argument.
\<close>

lemma isValidURL_bare_domain:
  assumes "new_URL s = None" and "includes_str s ''.''" and "\<not> includes_str s '' ''"
    and "new_URL (''https://'' @ s) = Some p"
  shows "isValidURL new_URL s = (True, ''https://'' @ s)"
  using assms by (simp add: isValidURL_def)

text \<open>
  Claim C7 on the content \<open>google.com\<close>: the validation accepts it and holds
  \<open>https://google.com\<close> in its own argument, and the redirect assigns the string
  without the prefix to \<open>window.location.href\<close>.
\<close>

theorem bare_domain_navigates_unprefixed:
  "isValidURL standard_URL ''google.com'' = (True, ''https://google.com'')
   \<and> redirectToOriginal standard_URL ''google.com'' = Navigate ''google.com''"
  by code_simp

text \<open>
  Claim C1 on its scenario: the identifier is in no store and the link carries the
  inline payload. \<open>init\<close> ends with the message that the content was not found, with
  the database reachable and empty as well as without the database; the payload is not
  read.
\<close>

theorem inline_payload_ignored:
  "init 8000 standard_URL \<lparr>qrId = Some ''abc123'', fallbackData = demo_payload\<rparr> (online_world True [])
     = (ShowError content_not_found, online_world True [])
   \<and> init 8000 standard_URL \<lparr>qrId = Some ''abc123'', fallbackData = demo_payload\<rparr>
        (offline_world True Absent Absent)
     = (ShowError content_not_found, offline_world True Absent Absent)"
  by (simp add: init_def init_sources_def getQRCode_def getItem_or_empty_def getItem_def
      online_world_def offline_world_def)

subsection \<open>Properties of the stores\<close>

lemma map_of_store_set_same [simp]: "map_of (store_set k v st) k = Some v"
  by (induction st) auto

lemma map_of_store_set_other [simp]: "k' \<noteq> k \<Longrightarrow> map_of (store_set k v st) k' = map_of st k'"
  by (induction st) auto

lemma getItem_flags [simp]:
  "firebase_ready (snd (getItem w)) = firebase_ready w"
  "firebaseInitialized (snd (getItem w)) = firebaseInitialized w"
  "databaseAvailable (snd (getItem w)) = databaseAvailable w"
  "reads_ok (snd (getItem w)) = reads_ok w"
  "writes_ok (snd (getItem w)) = writes_ok w"
  "crypto_ok (snd (getItem w)) = crypto_ok w"
  "quota_ok (snd (getItem w)) = quota_ok w"
  "remote (snd (getItem w)) = remote w"
  "server_time (snd (getItem w)) = server_time w"
  by (auto simp: getItem_def setItem_def split: slot.splits)

lemma getItem_or_empty_snd [simp]: "snd (getItem_or_empty w) = snd (getItem w)"
  by (simp add: getItem_or_empty_def split: prod.splits option.splits)

lemma setItem_fails: "(\<exists>e. setItem data w = Inl e) \<longleftrightarrow> \<not> quota_ok w"
  by (simp add: setItem_def)

lemma setItem_ok:
  "quota_ok w \<Longrightarrow> setItem data w =
     Inr (if crypto_ok w then w\<lparr>encrypted_slot := Holds data\<rparr> else w\<lparr>plain_slot := Holds data\<rparr>)"
  by (simp add: setItem_def)

text \<open>A read that has nothing to migrate leaves the storage as it is.\<close>

lemma getItem_no_migration:
  "encrypted_slot w \<noteq> Absent \<or> (\<forall>st. plain_slot w \<noteq> Holds st) \<Longrightarrow> snd (getItem w) = w"
  by (auto simp: getItem_def split: slot.splits)

lemma incrementScanCount_missing_local:
  assumes "\<not> firebase_ready w" and "map_of (fst (getItem_or_empty w)) i = None"
  shows "incrementScanCount now i w = (Inr (), snd (getItem w))"
proof -
  obtain st w1 where g: "getItem_or_empty w = (st, w1)" by (cases "getItem_or_empty w")
  then have "w1 = snd (getItem w)" by (metis getItem_or_empty_snd snd_conv)
  with g assms show ?thesis
    by (simp add: incrementScanCount_def incrementScanCount_try_def)
qed

text \<open>
  Claim C9 on a browser without the database and without working encryption, whose
  records are in the plain entry of \<open>localStorage\<close> (where \<open>setItem\<close> puts them
  when encryption fails), for an identifier that has no record: the call returns
  without an exception, and the plain entry, with every record in it, is gone. The read
  inside \<open>incrementScanCount\<close> stores the plain entry again, which without encryption
  writes the same plain entry, and then removes it.
\<close>

theorem incrementScanCount_drops_plain_store:
  "\<not> firebase_ready (offline_world False Absent (Holds [(''a1'', sample_record ''a1'' ''n'' ''t'' 7000)]))
   \<and> fst (getItem_or_empty (offline_world False Absent (Holds [(''a1'', sample_record ''a1'' ''n'' ''t'' 7000)])))
       = [(''a1'', sample_record ''a1'' ''n'' ''t'' 7000)]
   \<and> map_of (fst (getItem_or_empty
                (offline_world False Absent (Holds [(''a1'', sample_record ''a1'' ''n'' ''t'' 7000)])))) ''zz''
       = None
   \<and> incrementScanCount 8000 ''zz''
        (offline_world False Absent (Holds [(''a1'', sample_record ''a1'' ''n'' ''t'' 7000)]))
      = (Inr (), offline_world False Absent Absent)
   \<and> fst (getItem_or_empty (offline_world False Absent Absent)) = []"
  by (simp add: incrementScanCount_def incrementScanCount_try_def getItem_or_empty_def getItem_def
      setItem_def offline_world_def)





text \<open>
  Claim C2, as the code has it. When the networked backend is reachable,
  \<open>createQRCode\<close> writes the record to the database, with the server's timestamp; it
  fails, with the error of \<open>save_failed\<close>, exactly when that write is rejected, and
  then the world is unchanged: the local store is not tried. When there is no database
  object, it writes the record to the local store (the encrypted entry, or the plain
  entry when encryption fails), leaves the database alone, and fails exactly when the
  local write fails. In every case it ends with that error or with the new identifier.
\<close>

theorem createQRCode_selected_tier:
  "(reachable w \<longrightarrow>
      (fst (createQRCode now r t n l w) = Inl save_failed \<longleftrightarrow> \<not> writes_ok w)
    \<and> (writes_ok w \<longrightarrow>
        createQRCode now r t n l w =
          (Inr (generateUniqueId now r),
           w\<lparr>remote := store_set (generateUniqueId now r)
                \<lparr>qid = generateUniqueId now r, name = n, originalText = t, logoPath = l,
                 scanCount = 0, createdAt = server_time w, lastScanned = None\<rparr> (remote w)\<rparr>))
    \<and> (\<not> writes_ok w \<longrightarrow> createQRCode now r t n l w = (Inl save_failed, w)))
   \<and> (\<not> firebase_ready w \<longrightarrow>
      (fst (createQRCode now r t n l w) = Inl save_failed \<longleftrightarrow> \<not> quota_ok w)
    \<and> (quota_ok w \<longrightarrow>
        fst (createQRCode now r t n l w) = Inr (generateUniqueId now r)
        \<and> (if crypto_ok w then encrypted_slot (snd (createQRCode now r t n l w))
           else plain_slot (snd (createQRCode now r t n l w))) =
            Holds (store_set (generateUniqueId now r)
                    \<lparr>qid = generateUniqueId now r, name = n, originalText = t, logoPath = l,
                     scanCount = 0, createdAt = now, lastScanned = None\<rparr>
                    (fst (getItem_or_empty w))))
    \<and> remote (snd (createQRCode now r t n l w)) = remote w)
   \<and> (fst (createQRCode now r t n l w) = Inl save_failed
       \<or> fst (createQRCode now r t n l w) = Inr (generateUniqueId now r))"
proof -
  obtain st w1 where g: "getItem_or_empty w = (st, w1)" by (cases "getItem_or_empty w")
  then have w1: "w1 = snd (getItem w)" by (metis getItem_or_empty_snd snd_conv)
  then have flags: "quota_ok w1 = quota_ok w" "crypto_ok w1 = crypto_ok w" "remote w1 = remote w"
    by simp_all
  show ?thesis
  proof (cases "firebase_ready w")
    case True
    then show ?thesis by (simp add: createQRCode_def Let_def save_failed_def reachable_def)
  next
    case False
    show ?thesis
    proof (cases "quota_ok w")
      case True
      with False g flags show ?thesis
        by (simp add: createQRCode_def Let_def save_failed_def setItem_def reachable_def)
    next
      case q: False
      with False g flags show ?thesis
        by (simp add: createQRCode_def Let_def save_failed_def setItem_def reachable_def)
    qed
  qed
qed

text \<open>
  Claim C2 as stated fails: with the networked backend reachable and its write
  rejected, the creation fails, although the local store would take the record.
\<close>

theorem createQRCode_network_failure:
  "reachable (online_world False []) \<and> \<not> writes_ok (online_world False [])
   \<and> createQRCode 8000 ''0.4fzyo82mvyr'' ''https://example.com'' ''Demo'' None (online_world False [])
       = (Inl save_failed, online_world False [])
   \<and> setItem [(''k1'', sample_record ''k1'' ''Demo'' ''https://example.com'' 8000)] (online_world False [])
       = Inr ((online_world False [])
               \<lparr>encrypted_slot := Holds [(''k1'', sample_record ''k1'' ''Demo'' ''https://example.com'' 8000)]\<rparr>)"
  by (simp add: createQRCode_def setItem_def online_world_def Let_def reachable_def
      FirebaseStatus_isAvailable_def)

text \<open>
  A reachable backend that rejects the write, one that takes it, and a browser without
  the database object.
\<close>

theorem createQRCode_selected_tier_witness:
  "reachable (online_world False []) \<and> \<not> writes_ok (online_world False [])
   \<and> createQRCode 8000 ''0.4fzyo82mvyr'' ''https://example.com'' ''Demo'' None (online_world False [])
       = (Inl save_failed, online_world False [])
   \<and> reachable (online_world True []) \<and> writes_ok (online_world True [])
   \<and> fst (createQRCode 8000 ''0.4fzyo82mvyr'' ''https://example.com'' ''Demo'' None (online_world True []))
       = Inr (generateUniqueId 8000 ''0.4fzyo82mvyr'')
   \<and> \<not> firebase_ready (offline_world True Absent Absent) \<and> quota_ok (offline_world True Absent Absent)
   \<and> fst (createQRCode 8000 ''0.4fzyo82mvyr'' ''https://example.com'' ''Demo'' None
            (offline_world True Absent Absent))
       = Inr (generateUniqueId 8000 ''0.4fzyo82mvyr'')
   \<and> remote (snd (createQRCode 8000 ''0.4fzyo82mvyr'' ''https://example.com'' ''Demo'' None
                    (offline_world True Absent Absent)))
       = remote (offline_world True Absent Absent)"
proof -
  let ?a = "online_world False []"
  let ?c = "online_world True []"
  let ?b = "offline_world True Absent Absent"
  have a: "reachable ?a" "\<not> writes_ok ?a"
    by (simp_all add: online_world_def reachable_def FirebaseStatus_isAvailable_def)
  have c: "reachable ?c" "writes_ok ?c"
    by (simp_all add: online_world_def reachable_def FirebaseStatus_isAvailable_def)
  have b: "\<not> firebase_ready ?b" "quota_ok ?b" by (simp_all add: offline_world_def)
  note A = createQRCode_selected_tier [of ?a 8000 "''0.4fzyo82mvyr''" "''https://example.com''" "''Demo''" None]
  note C = createQRCode_selected_tier [of ?c 8000 "''0.4fzyo82mvyr''" "''https://example.com''" "''Demo''" None]
  note B = createQRCode_selected_tier [of ?b 8000 "''0.4fzyo82mvyr''" "''https://example.com''" "''Demo''" None]
  from A a have a1: "createQRCode 8000 ''0.4fzyo82mvyr'' ''https://example.com'' ''Demo'' None ?a
      = (Inl save_failed, ?a)"
    by blast
  from C c have "createQRCode 8000 ''0.4fzyo82mvyr'' ''https://example.com'' ''Demo'' None ?c
      = (Inr (generateUniqueId 8000 ''0.4fzyo82mvyr''),
         ?c\<lparr>remote := store_set (generateUniqueId 8000 ''0.4fzyo82mvyr'')
                \<lparr>qid = generateUniqueId 8000 ''0.4fzyo82mvyr'', name = ''Demo'',
                 originalText = ''https://example.com'', logoPath = None,
                 scanCount = 0, createdAt = server_time ?c, lastScanned = None\<rparr> (remote ?c)\<rparr>)"
    by blast
  then have c1: "fst (createQRCode 8000 ''0.4fzyo82mvyr'' ''https://example.com'' ''Demo'' None ?c)
      = Inr (generateUniqueId 8000 ''0.4fzyo82mvyr'')"
    by (simp only: fst_conv)
  from B b have b1: "fst (createQRCode 8000 ''0.4fzyo82mvyr'' ''https://example.com'' ''Demo'' None ?b)
      = Inr (generateUniqueId 8000 ''0.4fzyo82mvyr'')"
    and b2: "remote (snd (createQRCode 8000 ''0.4fzyo82mvyr'' ''https://example.com'' ''Demo'' None ?b))
      = remote ?b"
    by blast+
  from a c b a1 c1 b1 b2 show ?thesis by (intro conjI)
qed

text \<open>
  \<open>createQRCode\<close> does not read the status: after the monitor has reported a lost
  connection the method still takes the branch of the database, and a rejected write
  ends the creation without a write to the local store.
\<close>

lemma createQRCode_after_disconnect:
  "\<not> FirebaseStatus_isAvailable (connection_changed False (online_world False []))
   \<and> createQRCode 8000 ''0.4fzyo82mvyr'' ''https://example.com'' ''Demo'' None
        (connection_changed False (online_world False []))
       = (Inl save_failed, connection_changed False (online_world False []))"
  by (simp add: createQRCode_def online_world_def connection_changed_def Let_def
      FirebaseStatus_isAvailable_def)

subsection \<open>Properties of the duplicate check\<close>










end
